theory Spec2Isabelle
  imports Main
begin

section \<open>The RPC channel of \<open>rpc_channel.py\<close>\<close>

text \<open>
  The channel correlates outgoing calls with incoming responses and dispatches incoming
  requests to the attributes of a methods object. The model follows
  \<open>fastapi_websocket_rpc/rpc_channel.py\<close> function by function. Python objects that are
  shared by reference (the promises, each with its \<open>asyncio.Event\<close>) live in an explicit
  heap; exceptions are values; a coroutine that is still awaiting is the value
  \<open>Suspended\<close>.
\<close>

subsection \<open>Values, schemas, exceptions\<close>

text \<open>
  The Python values that travel as arguments and results. \<open>NoResponse\<close> is the sentinel
  class of \<open>rpc_methods\<close>, compared by identity in \<open>on_request\<close>.
\<close>

datatype pyval = PNone | PBool bool | PInt int | PStr string | NoResponse

text \<open>Return annotations; \<open>type_name\<close> is the annotation's \<open>__name__\<close>.\<close>

datatype pytype = TStr | TInt | TBool | TNamed string

fun type_name :: "pytype \<Rightarrow> string" where
  "type_name TStr = ''str''"
| "type_name TInt = ''int''"
| "type_name TBool = ''bool''"
| "type_name (TNamed n) = n"

fun is_str :: "pyval \<Rightarrow> bool" where
  "is_str (PStr _) = True"
| "is_str _ = False"

type_synonym arguments = "(string \<times> pyval) list"

text \<open>
  The schemas of \<open>schemas.py\<close>. A request made by \<open>async_call\<close> always carries the string
  that \<open>gen_uid\<close> returned; \<open>on_response\<close> tests a response's \<open>call_id\<close> against
  \<open>None\<close>, so there it is optional.
\<close>

record rpc_request =
  rq_method :: string
  rq_arguments :: arguments
  rq_call_id :: string

record rpc_response =
  rs_call_id :: "string option"
  rs_result :: pyval
  rs_result_type :: "string option"

record rpc_message =
  request :: "rpc_request option"
  response :: "rpc_response option"

text \<open>
  The exceptions that the code can meet. \<open>UnknownMethodException\<close> is the class declared
  at the top of the module; \<open>AttributeError\<close> is what \<open>getattr\<close> raises, \<open>KeyError\<close>
  what a dictionary raises for a missing key, \<open>ValidationError\<close> is pydantic's,
  \<open>RecursionError\<close> is what the JSON decoder raises on text nested too deeply, and
  \<open>OtherError\<close> stands for whatever else an exposed method raises.
\<close>

datatype exn =
    ValidationError
  | AttributeError string
  | KeyError string
  | UnknownMethodException
  | RecursionError
  | OtherError string

text \<open>What running a coroutine gives: a value, an exception, or it is still awaiting.\<close>

datatype 'a outcome = Return 'a | Raise exn | Suspended

text \<open>
  An attribute of the methods object: a callable with its behaviour when awaited on
  keyword arguments and its return annotation (\<open>None\<close> for \<open>_empty\<close>), or plain data.
  An exposed method is modelled by what it gives for its arguments: a result, an
  exception, or no completion.
\<close>

datatype attribute =
    Callable "arguments \<Rightarrow> pyval outcome" "pytype option"
  | Data pyval

text \<open>
  The library functions that the channel calls and that are not part of the module:
  \<open>RpcMessage.parse_raw\<close> (\<open>Inl e\<close> when it raises \<open>e\<close>: \<open>ValidationError\<close> for
  text that is not JSON or does not fit the schema, and whatever the decoder itself
  raises otherwise, as \<open>RecursionError\<close> on deep nesting), \<open>.json()\<close>, the builtin
  \<open>str\<close>, and the validation that \<open>RpcResponse[result_type](...)\<close> runs on the result
  (\<open>None\<close> when it raises \<open>ValidationError\<close>).
\<close>

record lib =
  parse_raw :: "string \<Rightarrow> exn + rpc_message"
  json :: "rpc_message \<Rightarrow> string"
  py_str :: "pyval \<Rightarrow> string"
  validate :: "pytype \<Rightarrow> pyval \<Rightarrow> pyval option"

subsection \<open>Promises and the channel\<close>

text \<open>\<open>RpcPromise\<close>: the request, its id, and whether the event is set.\<close>

record rpc_promise =
  p_request :: rpc_request
  p_id :: string
  p_event :: bool

datatype level = INFO | ERROR

text \<open>
  The channel with the objects it reaches: \<open>methods\<close>, \<open>requests\<close> and \<open>responses\<close>
  are the fields of \<open>RpcChannel\<close>; \<open>requests\<close> holds references into \<open>heap\<close>, where
  the promise objects live (a caller's handle is such a reference too); \<open>sent\<close> is what
  \<open>socket.send\<close> was given, oldest first; \<open>logged\<close> is the logger's output; \<open>invoked\<close>
  records each invocation of an attribute of the methods object.
\<close>

record channel =
  methods :: "string \<rightharpoonup> attribute"
  requests :: "string \<rightharpoonup> nat"
  responses :: "string \<rightharpoonup> rpc_response"
  heap :: "rpc_promise list"
  sent :: "string list"
  logged :: "(level \<times> string) list"
  invoked :: "(string \<times> arguments) list"

text \<open>\<open>RpcChannel.__init__\<close>: empty tables.\<close>

definition RpcChannel_init :: "(string \<rightharpoonup> attribute) \<Rightarrow> channel" where
  "RpcChannel_init ms =
     \<lparr>methods = ms, requests = Map.empty, responses = Map.empty, heap = [],
      sent = [], logged = [], invoked = []\<rparr>"

definition logger_info :: "string \<Rightarrow> channel \<Rightarrow> channel" where
  "logger_info m s = s\<lparr>logged := logged s @ [(INFO, m)]\<rparr>"

definition logger_error :: "string \<Rightarrow> channel \<Rightarrow> channel" where
  "logger_error m s = s\<lparr>logged := logged s @ [(ERROR, m)]\<rparr>"


text \<open>\<open>RpcChannel.send\<close>: hands the data to the socket.\<close>

definition send :: "string \<Rightarrow> channel \<Rightarrow> channel" where
  "send d s = s\<lparr>sent := sent s @ [d]\<rparr>"

text \<open>\<open>RpcPromise.__init__\<close>: a new object with a fresh, unset event.\<close>

definition RpcPromise_init :: "rpc_request \<Rightarrow> channel \<Rightarrow> nat \<times> channel" where
  "RpcPromise_init rq s =
     (length (heap s),
      s\<lparr>heap := heap s @ [\<lparr>p_request = rq, p_id = rq_call_id rq, p_event = False\<rparr>]\<rparr>)"

text \<open>\<open>RpcPromise.set\<close>.\<close>

definition promise_set :: "nat \<Rightarrow> channel \<Rightarrow> channel" where
  "promise_set p s = s\<lparr>heap := (heap s)[p := (heap s ! p)\<lparr>p_event := True\<rparr>]\<rparr>"

text \<open>Whether \<open>RpcPromise.wait\<close> returns at once (a reference is always to a live object).\<close>

definition event_is_set :: "nat \<Rightarrow> channel \<Rightarrow> bool" where
  "event_is_set p s = (p < length (heap s) \<and> p_event (heap s ! p))"

definition promise_call_id :: "nat \<Rightarrow> channel \<Rightarrow> string" where
  "promise_call_id p s = p_id (heap s ! p)"

subsection \<open>Handling incoming messages\<close>

definition get_return_type :: "pytype option \<Rightarrow> pytype" where
  "get_return_type annotation = (case annotation of None \<Rightarrow> TStr | Some t \<Rightarrow> t)"

text \<open>
  \<open>on_request\<close>: \<open>getattr\<close> on the methods object with the name from the wire, then the
  call if the attribute is callable, then the response unless the result is \<open>NoResponse\<close>.
\<close>

definition on_request :: "lib \<Rightarrow> rpc_request \<Rightarrow> channel \<Rightarrow> unit outcome \<times> channel" where
  "on_request L message s =
     (let s1 = logger_info ''Handling RPC request'' s in
      case methods s1 (rq_method message) of
        None \<Rightarrow> (Raise (AttributeError (rq_method message)), s1)
      | Some (Data _) \<Rightarrow> (Return (), s1)
      | Some (Callable f annotation) \<Rightarrow>
          (let s2 = s1\<lparr>invoked := invoked s1 @ [(rq_method message, rq_arguments message)]\<rparr> in
           case f (rq_arguments message) of
             Raise e \<Rightarrow> (Raise e, s2)
           | Suspended \<Rightarrow> (Suspended, s2)
           | Return result \<Rightarrow>
               if result \<noteq> NoResponse then
                 (let result_type = get_return_type annotation;
                      result1 = (if result_type = TStr \<and> \<not> is_str result
                                 then PStr (py_str L result) else result)
                  in case validate L result_type result1 of
                       None \<Rightarrow> (Raise ValidationError, s2)
                     | Some v \<Rightarrow>
                         (Return (),
                          send (json L \<lparr>request = None,
                                  response = Some \<lparr>rs_call_id = Some (rq_call_id message),
                                    rs_result = v,
                                    rs_result_type = Some (type_name result_type)\<rparr>\<rparr>) s2))
               else (Return (), s2)))"

text \<open>
  \<open>on_response\<close>: a response whose \<open>call_id\<close> is a key of \<open>requests\<close> is stored and its
  promise's event set; any other response only leaves the log line.
\<close>

definition on_response :: "rpc_response \<Rightarrow> channel \<Rightarrow> unit outcome \<times> channel" where
  "on_response rs s =
     (let s1 = logger_info ''Handling RPC response'' s in
      case rs_call_id rs of
        None \<Rightarrow> (Return (), s1)
      | Some cid \<Rightarrow>
          (case requests s1 cid of
             None \<Rightarrow> (Return (), s1)
           | Some promise \<Rightarrow>
               (Return (), promise_set promise (s1\<lparr>responses := (responses s1)(cid \<mapsto> rs)\<rparr>))))"

text \<open>
  \<open>on_message\<close>: parse, then the request if there is one, then the response if there is
  one; a \<open>ValidationError\<close> raised anywhere in between, the parse included, is logged
  and swallowed, every other exception leaves the function.
\<close>

definition on_message :: "lib \<Rightarrow> string \<Rightarrow> channel \<Rightarrow> unit outcome \<times> channel" where
  "on_message L data s =
     (case parse_raw L data of
        Inl e \<Rightarrow>
          if e = ValidationError
          then (Return (), logger_error ''Failed to parse message'' s)
          else (Raise e, s)
      | Inr message \<Rightarrow>
          (case (case request message of
                   None \<Rightarrow> (Return (), s)
                 | Some rq \<Rightarrow> on_request L rq s) of
             (Raise e, s1) \<Rightarrow>
               if e = ValidationError
               then (Return (), logger_error ''Failed to parse message'' s1)
               else (Raise e, s1)
           | (Suspended, s1) \<Rightarrow> (Suspended, s1)
           | (Return _, s1) \<Rightarrow>
               (case response message of
                  None \<Rightarrow> (Return (), s1)
                | Some rs \<Rightarrow> on_response rs s1)))"

subsection \<open>Making calls\<close>

text \<open>
  \<open>wait_for_response\<close>, run in the state in which the coroutine gets past
  \<open>await promise.wait()\<close>: with the event unset it stays suspended. Each subscript and
  each \<open>del\<close> raises \<open>KeyError\<close> on a missing key.
\<close>

definition wait_for_response :: "nat \<Rightarrow> channel \<Rightarrow> rpc_response outcome \<times> channel" where
  "wait_for_response promise s =
     (if \<not> event_is_set promise s then (Suspended, s)
      else
        (let cid = promise_call_id promise s in
         case responses s cid of
           None \<Rightarrow> (Raise (KeyError cid), s)
         | Some rs \<Rightarrow>
             (case requests s cid of
                None \<Rightarrow> (Raise (KeyError cid), s)
              | Some _ \<Rightarrow>
                  (Return rs,
                   s\<lparr>requests := (requests s)(cid := None),
                     responses := (responses s)(cid := None)\<rparr>))))"

text \<open>
  \<open>async_call\<close> in its two parts: up to \<open>await self.send(msg.json())\<close>, and from there
  on. \<open>uid\<close> is what \<open>gen_uid()\<close> returned. While the send is awaited other tasks of the
  event loop may run; \<open>others\<close> is what they do to the channel (the identity when the
  send completes without yielding).
\<close>

definition async_call_send ::
  "lib \<Rightarrow> string \<Rightarrow> arguments \<Rightarrow> string \<Rightarrow> channel \<Rightarrow> rpc_request \<times> channel" where
  "async_call_send L name args uid s =
     (let rq = \<lparr>rq_method = name, rq_arguments = args, rq_call_id = uid\<rparr>;
          msg = \<lparr>request = Some rq, response = None\<rparr>;
          s1 = logger_info ''Calling RPC method'' s
      in (rq, send (json L msg) s1))"

definition async_call_register :: "rpc_request \<Rightarrow> channel \<Rightarrow> nat \<times> channel" where
  "async_call_register rq s =
     (let (promise, s1) = RpcPromise_init rq s
      in (promise, s1\<lparr>requests := (requests s1)(rq_call_id rq \<mapsto> promise)\<rparr>))"

definition async_call ::
  "lib \<Rightarrow> string \<Rightarrow> arguments \<Rightarrow> string \<Rightarrow> (channel \<Rightarrow> channel) \<Rightarrow> channel \<Rightarrow> nat \<times> channel" where
  "async_call L name args uid others s =
     (let (rq, s1) = async_call_send L name args uid s;
          s2 = others s1
      in async_call_register rq s2)"

text \<open>
  \<open>call\<close>: \<open>async_call\<close>, then \<open>wait_for_response\<close>. If the event is not yet set when the
  wait begins, the coroutine yields and \<open>during_wait\<close> is what the other tasks do until
  it is looked at again.
\<close>

definition call ::
  "lib \<Rightarrow> string \<Rightarrow> arguments \<Rightarrow> string \<Rightarrow> (channel \<Rightarrow> channel) \<Rightarrow> (channel \<Rightarrow> channel)
     \<Rightarrow> channel \<Rightarrow> rpc_response outcome \<times> channel" where
  "call L name args uid during_send during_wait s =
     (let (promise, s1) = async_call L name args uid during_send s
      in wait_for_response promise
           (if event_is_set promise s1 then s1 else during_wait s1))"

text \<open>
  \<open>RpcCaller.__getattribute__\<close>, the calling side's facade: a name is forwarded as a
  remote call when it does not start with an underscore and is in the list of method
  names, if one was given; any other name is the facade's own attribute.
\<close>

datatype facade_attribute = RpcProxy string | Own string

definition startswith_underscore :: "string \<Rightarrow> bool" where
  "startswith_underscore name = (case name of [] \<Rightarrow> False | c # _ \<Rightarrow> c = CHR ''_'')"

definition RpcCaller_getattribute :: "string list option \<Rightarrow> string \<Rightarrow> facade_attribute" where
  "RpcCaller_getattribute method_names name =
     (if \<not> startswith_underscore name \<and>
         (case method_names of None \<Rightarrow> True | Some ns \<Rightarrow> name \<in> set ns)
      then RpcProxy name else Own name)"

subsection \<open>Several calls in flight\<close>

text \<open>
  \<open>deliver\<close> is the dispatcher handing responses to \<open>on_response\<close> in their order
  of arrival.
\<close>

fun deliver :: "rpc_response list \<Rightarrow> channel \<Rightarrow> channel" where
  "deliver [] s = s"
| "deliver (r # rs) s = deliver rs (snd (on_response r s))"

text \<open>
  Three stages in the life of a call with id \<open>u\<close> and handle \<open>p\<close>: registered and
  awaiting its response; answered by \<open>r\<close> and not yet consumed; consumed.
\<close>

definition pending :: "channel \<Rightarrow> string \<Rightarrow> nat \<Rightarrow> bool" where
  "pending s u p = (p < length (heap s) \<and> p_id (heap s ! p) = u \<and> requests s u = Some p)"


definition consumed :: "channel \<Rightarrow> string \<Rightarrow> nat \<Rightarrow> bool" where
  "consumed s u p =
     (p < length (heap s) \<and> p_id (heap s ! p) = u \<and> p_event (heap s ! p) \<and>
      requests s u = None \<and> responses s u = None)"

text \<open>Every stored response sits under its own \<open>call_id\<close>.\<close>

definition keyed :: "channel \<Rightarrow> bool" where
  "keyed s = (\<forall>k r. responses s k = Some r \<longrightarrow> rs_call_id r = Some k)"

subsection \<open>Calls in flight among other tasks\<close>

text \<open>
  What the event loop runs between two looks at one call, as a list of the other tasks'
  steps, each of them code between two awaits: the dispatcher handing a response to
  \<open>on_response\<close> or a request to \<open>on_request\<close>, another call's \<open>async_call\<close> up
  to its send and, at some later point, from its send on, and a wait on another handle.
  \<open>run\<close> performs the steps, the oldest first.
\<close>

datatype step =
    Deliver rpc_response
  | Request rpc_request
  | Send string arguments string
  | Register rpc_request
  | Await nat





text \<open>The response with \<open>call_id\<close> \<open>u\<close> that the dispatcher handled last, if any.\<close>

fun last_reply :: "string \<Rightarrow> step list \<Rightarrow> rpc_response option" where
  "last_reply u [] = None"
| "last_reply u (x # xs) =
     (case last_reply u xs of
        Some r \<Rightarrow> Some r
      | None \<Rightarrow>
          (case x of
             Deliver r \<Rightarrow> if rs_call_id r = Some u then Some r else None
           | _ \<Rightarrow> None))"

text \<open>
  The handle \<open>p\<close> is the one promise of the call \<open>u\<close>: it is registered under \<open>u\<close>
  and under no other id, and no other promise object carries the id \<open>u\<close>.
\<close>

definition own_promise :: "channel \<Rightarrow> string \<Rightarrow> nat \<Rightarrow> bool" where
  "own_promise s u p =
     (pending s u p \<and> (\<forall>u'. u' \<noteq> u \<longrightarrow> requests s u' \<noteq> Some p) \<and>
      (\<forall>q < length (heap s). q \<noteq> p \<longrightarrow> p_id (heap s ! q) \<noteq> u))"

subsection \<open>A small endpoint to run the channel on\<close>

text \<open>
  A methods object with an exposed \<open>add\<close>, a fire-and-forget \<open>notify\<close>, the
  \<open>set_channel\<close> that the constructor calls (a plain function: once it has been
  called, awaiting what it returned raises \<open>TypeError\<close>), and a private helper; no
  \<open>multiply\<close>.
\<close>

definition add_method :: "arguments \<Rightarrow> pyval outcome" where
  "add_method args =
     (case (map_of args ''a'', map_of args ''b'') of
        (Some (PInt a), Some (PInt b)) \<Rightarrow> Return (PInt (a + b))
      | _ \<Rightarrow> Raise (OtherError ''TypeError''))"

definition example_methods :: "string \<rightharpoonup> attribute" where
  "example_methods =
     map_of [(''add'', Callable add_method (Some TInt)),
             (''notify'', Callable (\<lambda>_. Return NoResponse) None),
             (''set_channel'', Callable (\<lambda>_. Raise (OtherError ''TypeError'')) None),
             (''_helper'', Callable (\<lambda>_. Return (PStr ''internal'')) None),
             (''_channel'', Data PNone)]"

definition example_response :: rpc_response where
  "example_response =
     \<lparr>rs_call_id = Some ''id1'', rs_result = PInt 3, rs_result_type = Some ''int''\<rparr>"

definition multiply_request :: rpc_request where
  "multiply_request =
     \<lparr>rq_method = ''multiply'', rq_arguments = [(''a'', PInt 2), (''b'', PInt 3)],
      rq_call_id = ''id7''\<rparr>"

definition helper_request :: rpc_request where
  "helper_request = \<lparr>rq_method = ''_helper'', rq_arguments = [], rq_call_id = ''id9''\<rparr>"

definition set_channel_request :: rpc_request where
  "set_channel_request =
     \<lparr>rq_method = ''set_channel'', rq_arguments = [(''channel'', PNone)], rq_call_id = ''id8''\<rparr>"

definition notify_request :: rpc_request where
  "notify_request = \<lparr>rq_method = ''notify'', rq_arguments = [], rq_call_id = ''id5''\<rparr>"

text \<open>
  A stand-in wire format: a few fixed texts decode; text that opens a thousand or more
  arrays exhausts the decoder's recursion, as it does in Python's \<open>json\<close>; everything
  else is rejected with \<open>ValidationError\<close>.
\<close>

definition nesting :: "string \<Rightarrow> nat" where
  "nesting d = length (takeWhile (\<lambda>c. c = CHR ''['') d)"

definition example_parse :: "string \<Rightarrow> exn + rpc_message" where
  "example_parse d =
     (if 1000 \<le> nesting d then Inl RecursionError
      else if d = ''response id1''
        then Inr \<lparr>request = None, response = Some example_response\<rparr>
      else if d = ''request multiply id7''
        then Inr \<lparr>request = Some multiply_request, response = None\<rparr>
      else if d = ''request multiply id7 response id1''
        then Inr \<lparr>request = Some multiply_request, response = Some example_response\<rparr>
      else if d = ''request notify id5 response id1''
        then Inr \<lparr>request = Some notify_request, response = Some example_response\<rparr>
      else Inl ValidationError)"

definition example_json :: "rpc_message \<Rightarrow> string" where
  "example_json m =
     (case request m of
        Some rq \<Rightarrow> ''request '' @ rq_method rq @ '' '' @ rq_call_id rq
      | None \<Rightarrow>
          (case response m of
             Some rs \<Rightarrow> ''response '' @ (case rs_call_id rs of Some c \<Rightarrow> c | None \<Rightarrow> ''null'')
           | None \<Rightarrow> ''null''))"

definition example_lib :: lib where
  "example_lib =
     \<lparr>parse_raw = example_parse, json = example_json, py_str = (\<lambda>_. ''?''),
      validate = (\<lambda>_ v. Some v)\<rparr>"

definition example_channel :: channel where
  "example_channel = RpcChannel_init example_methods"

text \<open>The reader task handling the reply to call \<open>id1\<close>.\<close>

definition reader :: "channel \<Rightarrow> channel" where
  "reader s = snd (on_message example_lib ''response id1'' s)"

text \<open>
  The channel after \<open>async_call("add", {a: 1, b: 2})\<close> with generated id \<open>id1\<close>, and the
  same channel once the reader has handled the reply.
\<close>

definition pending_channel :: channel where
  "pending_channel =
     snd (async_call example_lib ''add'' [(''a'', PInt 1), (''b'', PInt 2)] ''id1'' id
            example_channel)"

definition answered_channel :: channel where
  "answered_channel = reader pending_channel"









section \<open>Properties\<close>

subsection \<open>The example channels, evaluated\<close>

lemma pending_channel_eq:
  "pending_channel =
     \<lparr>methods = example_methods, requests = [''id1'' \<mapsto> 0], responses = Map.empty,
      heap = [\<lparr>p_request = \<lparr>rq_method = ''add'', rq_arguments = [(''a'', PInt 1), (''b'', PInt 2)],
                  rq_call_id = ''id1''\<rparr>, p_id = ''id1'', p_event = False\<rparr>],
      sent = [''request add id1''], logged = [(INFO, ''Calling RPC method'')], invoked = []\<rparr>"
  by (simp add: pending_channel_def async_call_def async_call_send_def async_call_register_def
      RpcPromise_init_def send_def logger_info_def example_channel_def RpcChannel_init_def
      example_lib_def example_json_def)

lemma answered_channel_eq:
  "answered_channel =
     \<lparr>methods = example_methods, requests = [''id1'' \<mapsto> 0],
      responses = [''id1'' \<mapsto> example_response],
      heap = [\<lparr>p_request = \<lparr>rq_method = ''add'', rq_arguments = [(''a'', PInt 1), (''b'', PInt 2)],
                  rq_call_id = ''id1''\<rparr>, p_id = ''id1'', p_event = True\<rparr>],
      sent = [''request add id1''],
      logged = [(INFO, ''Calling RPC method''), (INFO, ''Handling RPC response'')],
      invoked = []\<rparr>"
  by (simp add: answered_channel_def pending_channel_eq reader_def on_message_def on_response_def
      promise_set_def logger_info_def example_lib_def example_parse_def nesting_def example_response_def)

subsection \<open>Promise objects on the heap\<close>

lemma heap_set_p_id:
  "p < length h \<Longrightarrow> p_id (h[q := (h ! q)\<lparr>p_event := True\<rparr>] ! p) = p_id (h ! p)"
  by (cases "p = q") auto

lemma heap_set_p_event:
  "p < length h \<Longrightarrow> p_event (h ! p) \<Longrightarrow> p_event (h[q := (h ! q)\<lparr>p_event := True\<rparr>] ! p)"
  by (cases "p = q") auto

subsection \<open>What a completed wait has done\<close>

lemma wait_for_response_Return:
  assumes "wait_for_response promise s = (Return rs, s')"
  shows "event_is_set promise s"
    and "responses s (promise_call_id promise s) = Some rs"
    and "requests s (promise_call_id promise s) \<noteq> None"
    and "s' = s\<lparr>requests := (requests s)(promise_call_id promise s := None),
               responses := (responses s)(promise_call_id promise s := None)\<rparr>"
  using assms
  by (auto simp: wait_for_response_def Let_def split: if_splits option.splits)

lemma wait_for_response_consumed:
  assumes "wait_for_response promise s = (Return rs, s')"
  shows "consumed s' (promise_call_id promise s) promise"
  using wait_for_response_Return[OF assms]
  by (simp add: consumed_def event_is_set_def promise_call_id_def)

lemma on_response_consumed:
  "consumed s u p \<Longrightarrow> consumed (snd (on_response r s)) u p"
  by (auto simp: on_response_def consumed_def promise_set_def logger_info_def Let_def
      heap_set_p_id heap_set_p_event split: option.splits)

lemma deliver_consumed:
  "consumed s u p \<Longrightarrow> consumed (deliver rs s) u p"
  by (induction rs arbitrary: s) (auto simp: on_response_consumed)

lemma wait_consumed:
  "consumed s u p \<Longrightarrow> wait_for_response p s = (Raise (KeyError u), s)"
  by (simp add: consumed_def wait_for_response_def event_is_set_def promise_call_id_def Let_def)

subsection \<open>Registered calls and their responses\<close>

lemma async_call_pending_own:
  "async_call L name args uid id s = (p, s1) \<Longrightarrow> pending s1 uid p"
  by (auto simp: async_call_def async_call_send_def async_call_register_def RpcPromise_init_def
      send_def logger_info_def pending_def Let_def)

lemma async_call_pending_other:
  "pending s u p \<Longrightarrow> u \<noteq> uid \<Longrightarrow> pending (snd (async_call L name args uid id s)) u p"
  by (auto simp: async_call_def async_call_send_def async_call_register_def RpcPromise_init_def
      send_def logger_info_def pending_def Let_def nth_append)

lemma on_response_pending:
  "pending s u p \<Longrightarrow> pending (snd (on_response r s)) u p"
  by (auto simp: on_response_def pending_def promise_set_def logger_info_def Let_def heap_set_p_id
      split: option.splits)

lemma deliver_pending:
  "pending s u p \<Longrightarrow> pending (deliver rs s) u p"
  by (induction rs arbitrary: s) (auto simp: on_response_pending)


subsection \<open>Stored responses sit under their own id\<close>

lemma keyed_init: "keyed (RpcChannel_init ms)"
  by (simp add: keyed_def RpcChannel_init_def)

lemma on_response_keyed: "keyed s \<Longrightarrow> keyed (snd (on_response r s))"
  by (auto simp: keyed_def on_response_def promise_set_def logger_info_def Let_def
      split: option.splits)

lemma deliver_keyed: "keyed s \<Longrightarrow> keyed (deliver rs s)"
  by (induction rs arbitrary: s) (auto simp: on_response_keyed)

lemma on_request_responses: "responses (snd (on_request L rq s)) = responses s"
  by (simp add: on_request_def logger_info_def send_def Let_def
      split: option.splits attribute.splits outcome.splits)

lemma on_message_keyed: "keyed s \<Longrightarrow> keyed (snd (on_message L d s))"
proof -
  assume k: "keyed s"
  have rq: "\<And>rq. keyed (snd (on_request L rq s))"
    using k by (simp add: keyed_def on_request_responses)
  have lg: "\<And>t m. keyed t \<Longrightarrow> keyed (logger_error m t)"
    by (simp add: keyed_def logger_error_def)
  show ?thesis
  proof (cases "parse_raw L d")
    case (Inl e)
    then show ?thesis using k lg by (simp add: on_message_def)
  next
    case (Inr m)
    define q where "q = (case request m of None \<Rightarrow> (Return (), s) | Some rq \<Rightarrow> on_request L rq s)"
    have kq: "keyed (snd q)" using k rq by (simp add: q_def split: option.splits)
    obtain o1 s1 where q: "q = (o1, s1)" by force
    have "keyed s1" using kq q by simp
    then show ?thesis
      using Inr q lg[of s1] on_response_keyed[of s1]
      by (cases o1) (auto simp: on_message_def q_def[symmetric] split: option.splits)
  qed
qed

lemma async_call_keyed: "keyed s \<Longrightarrow> keyed (snd (async_call L name args uid id s))"
  by (simp add: keyed_def async_call_def async_call_send_def async_call_register_def
      RpcPromise_init_def send_def logger_info_def Let_def)

lemma wait_for_response_keyed: "keyed s \<Longrightarrow> keyed (snd (wait_for_response p s))"
  by (simp add: keyed_def wait_for_response_def Let_def split: option.splits)

lemma wait_for_response_own_id:
  assumes "keyed s" and "wait_for_response p s = (Return r, s')"
  shows "rs_call_id r = Some (promise_call_id p s)"
  using assms(1) wait_for_response_Return(2)[OF assms(2)] by (simp add: keyed_def)

text \<open>
  A single \<open>call\<close> whose reply the dispatcher handles while the call waits returns the
  response with its own id and leaves no entry behind.
\<close>

lemma call_returns_own_response:
  assumes "keyed s" and "call L name args uid id (deliver rs) s = (Return r, s')"
  shows "rs_call_id r = Some uid \<and> requests s' uid = None \<and> responses s' uid = None"
proof -
  obtain p s1 where a: "async_call L name args uid id s = (p, s1)" by force
  let ?s2 = "if event_is_set p s1 then s1 else deliver rs s1"
  have w: "wait_for_response p ?s2 = (Return r, s')"
    using assms(2) a by (simp add: call_def)
  have "pending s1 uid p" using a by (rule async_call_pending_own)
  then have "pending ?s2 uid p" by (simp add: deliver_pending)
  then have cid: "promise_call_id p ?s2 = uid" by (simp add: pending_def promise_call_id_def)
  have "keyed s1" using async_call_keyed[OF assms(1), of L name args uid] a by simp
  then have "keyed ?s2" by (simp add: deliver_keyed)
  then have "rs_call_id r = Some uid" using wait_for_response_own_id[OF _ w] cid by simp
  moreover have "requests s' uid = None \<and> responses s' uid = None"
    using wait_for_response_Return(4)[OF w] cid by simp
  ultimately show ?thesis by simp
qed

subsection \<open>The log does not steer the handlers\<close>





subsection \<open>Requests: lookup and invocation\<close>

lemma on_request_absent:
  "methods s (rq_method rq) = None \<Longrightarrow>
   on_request L rq s =
     (Raise (AttributeError (rq_method rq)), logger_info ''Handling RPC request'' s)"
  by (simp add: on_request_def logger_info_def)

lemma on_message_absent:
  "parse_raw L d = Inr m \<Longrightarrow> request m = Some rq \<Longrightarrow> methods s (rq_method rq) = None \<Longrightarrow>
   on_message L d s =
     (Raise (AttributeError (rq_method rq)), logger_info ''Handling RPC request'' s)"
  by (simp add: on_message_def on_request_absent)

lemma on_request_callable_invoked:
  "methods s (rq_method rq) = Some (Callable f annotation) \<Longrightarrow>
   invoked (snd (on_request L rq s)) = invoked s @ [(rq_method rq, rq_arguments rq)]"
  by (simp add: on_request_def logger_info_def send_def Let_def split: outcome.splits option.splits)

subsection \<open>A reply that arrives while the send is awaited\<close>

lemma async_call_send_unregistered:
  "requests (snd (async_call_send L name args uid s)) = requests s \<and>
   sent (snd (async_call_send L name args uid s)) =
     sent s @ [json L \<lparr>request = Some \<lparr>rq_method = name, rq_arguments = args, rq_call_id = uid\<rparr>,
                        response = None\<rparr>]"
  by (simp add: async_call_send_def send_def logger_info_def Let_def)

lemma async_call_reply_lost:
  assumes "requests s uid = None" and "rs_call_id r = Some uid"
      and "async_call L name args uid (\<lambda>t. snd (on_response r t)) s = (p, s1)"
  shows "responses s1 uid = responses s uid \<and> requests s1 uid = Some p \<and>
         wait_for_response p s1 = (Suspended, s1)"
  using assms
  by (auto simp: async_call_def async_call_send_def async_call_register_def RpcPromise_init_def
      send_def logger_info_def on_response_def wait_for_response_def event_is_set_def Let_def)

subsection \<open>One call among the steps of the others\<close>















lemma last_reply_Cons:
  "last_reply u (x # xs) = (case last_reply u xs of Some r \<Rightarrow> Some r | None \<Rightarrow> last_reply u [x])"
  by (simp split: option.splits)



text \<open>
  A call that \<open>async_call\<close> has just registered under a fresh id, on a channel whose
  table refers to promises on the heap only, is in the state that the lemmas above
  start from.
\<close>

lemma async_call_register_own:
  assumes "\<forall>u' q. requests s u' = Some q \<longrightarrow> q < length (heap s)"
      and "\<forall>q < length (heap s). p_id (heap s ! q) \<noteq> rq_call_id rq"
      and "async_call_register rq s = (p, s1)"
  shows "own_promise s1 (rq_call_id rq) p \<and> \<not> p_event (heap s1 ! p)"
proof -
  have p: "p = length (heap s)"
    and h: "heap s1 = heap s @ [\<lparr>p_request = rq, p_id = rq_call_id rq, p_event = False\<rparr>]"
    and r: "requests s1 = (requests s)(rq_call_id rq \<mapsto> length (heap s))"
    using assms(3) by (auto simp: async_call_register_def RpcPromise_init_def)
  have "\<forall>u'. u' \<noteq> rq_call_id rq \<longrightarrow> requests s1 u' \<noteq> Some p"
    using assms(1) by (auto simp: r p)
  moreover have "\<forall>q < length (heap s1). q \<noteq> p \<longrightarrow> p_id (heap s1 ! q) \<noteq> rq_call_id rq"
    using assms(2) by (simp add: h p nth_append)
  moreover have "pending s1 (rq_call_id rq) p" by (simp add: pending_def h r p)
  ultimately show ?thesis by (simp add: own_promise_def h p)
qed

subsection \<open>The claims\<close>

text \<open>
  C1 asks that the pending call be registered before its request counts as sent, so
  that no reply can meet an unregistered id. The code does the reverse:
  \<open>async_call\<close> registers the promise only after \<open>await self.send(...)\<close>. On the
  example channel the request \<open>id1\<close> has gone to the socket while \<open>requests\<close> has no
  entry for it; if the reader handles the reply while the send is awaited, the reply is
  dropped, the promise registered afterwards is never set, and \<open>call\<close> stays suspended.
  The same reply handled after the registration is returned by \<open>call\<close>.
\<close>

theorem async_call_reply_during_send:
  "sent (snd (async_call_send example_lib ''add'' [(''a'', PInt 1), (''b'', PInt 2)] ''id1''
                example_channel)) = [''request add id1''] \<and>
   requests (snd (async_call_send example_lib ''add'' [(''a'', PInt 1), (''b'', PInt 2)] ''id1''
                    example_channel)) ''id1'' = None \<and>
   requests (snd (async_call example_lib ''add'' [(''a'', PInt 1), (''b'', PInt 2)] ''id1''
                    reader example_channel)) ''id1'' = Some 0 \<and>
   responses (snd (async_call example_lib ''add'' [(''a'', PInt 1), (''b'', PInt 2)] ''id1''
                     reader example_channel)) ''id1'' = None \<and>
   fst (call example_lib ''add'' [(''a'', PInt 1), (''b'', PInt 2)] ''id1'' reader id
          example_channel) = Suspended \<and>
   fst (call example_lib ''add'' [(''a'', PInt 1), (''b'', PInt 2)] ''id1'' id reader
          example_channel) = Return example_response"
  by (simp add: call_def async_call_def async_call_send_def async_call_register_def
      RpcPromise_init_def send_def logger_info_def reader_def on_message_def on_response_def
      promise_set_def wait_for_response_def event_is_set_def promise_call_id_def
      example_channel_def RpcChannel_init_def example_lib_def example_json_def
      example_parse_def nesting_def example_response_def Let_def)

text \<open>
  C2 asks that a request for a method the endpoint lacks fail with an
  \<open>UnknownMethodException\<close> that is surfaced to the requester and does not escape
  into the dispatch loop. The code does not do so:
  the example endpoint has no \<open>multiply\<close>; \<open>on_request\<close> fails in \<open>getattr\<close>
  with \<open>AttributeError\<close>, which is not \<open>UnknownMethodException\<close>; \<open>on_message\<close>
  catches \<open>ValidationError\<close> only, so the error leaves it; nothing is sent back to
  the requester.
\<close>

theorem on_request_unknown_method:
  "methods example_channel ''multiply'' = None \<and>
   on_request example_lib multiply_request example_channel =
     (Raise (AttributeError ''multiply''),
      example_channel\<lparr>logged := [(INFO, ''Handling RPC request'')]\<rparr>) \<and>
   AttributeError ''multiply'' \<noteq> UnknownMethodException \<and>
   fst (on_message example_lib ''request multiply id7'' example_channel) =
     Raise (AttributeError ''multiply'') \<and>
   sent (snd (on_message example_lib ''request multiply id7'' example_channel)) = []"
  by (simp add: on_message_def on_request_def logger_info_def example_channel_def
      RpcChannel_init_def example_lib_def example_parse_def nesting_def example_methods_def
      multiply_request_def)










text \<open>
  C6. A response whose \<open>call_id\<close> is not a key of the pending-call table (or is
  \<open>None\<close>) is discarded: \<open>on_response\<close> returns without an error and, the log line
  apart, the channel is as before, so both tables and every promise are untouched.
\<close>

theorem on_response_unknown_call_id:
  assumes "\<And>cid. rs_call_id rs = Some cid \<Longrightarrow> requests s cid = None"
  shows "on_response rs s =
           (Return (), s\<lparr>logged := logged s @ [(INFO, ''Handling RPC response'')]\<rparr>)"
  using assms by (simp add: on_response_def logger_info_def Let_def split: option.splits)

theorem on_response_unknown_call_id_witness:
  "requests example_channel ''id1'' = None \<and>
   on_response example_response example_channel =
     (Return (), example_channel\<lparr>logged := [(INFO, ''Handling RPC response'')]\<rparr>)"
proof -
  have h: "\<And>cid. rs_call_id example_response = Some cid \<Longrightarrow> requests example_channel cid = None"
    by (simp add: example_channel_def RpcChannel_init_def)
  show ?thesis
    using on_response_unknown_call_id[of example_response example_channel, OF h]
    by (simp add: example_channel_def RpcChannel_init_def)
qed

text \<open>
  C7. When the invoked method returns the \<open>NoResponse\<close> sentinel, \<open>on_request\<close>
  returns without sending anything: the socket has received exactly what it had
  received before the request.
\<close>

theorem on_request_NoResponse:
  assumes "methods s (rq_method message) = Some (Callable f annotation)"
      and "f (rq_arguments message) = Return NoResponse"
  shows "fst (on_request L message s) = Return () \<and>
         sent (snd (on_request L message s)) = sent s"
  using assms by (simp add: on_request_def logger_info_def Let_def)

theorem on_request_NoResponse_witness:
  "methods example_channel (rq_method notify_request) =
     Some (Callable (\<lambda>_. Return NoResponse) None) \<and>
   fst (on_request example_lib notify_request example_channel) = Return () \<and>
   sent (snd (on_request example_lib notify_request example_channel)) = []"
proof -
  have h: "methods example_channel (rq_method notify_request) =
     Some (Callable (\<lambda>_. Return NoResponse) None)"
    by (simp add: example_channel_def RpcChannel_init_def example_methods_def notify_request_def)
  have s: "sent example_channel = []"
    by (simp add: example_channel_def RpcChannel_init_def)
  show ?thesis
    using h s on_request_NoResponse[OF h, of example_lib] by simp
qed

text \<open>
  C8. Once \<open>wait_for_response\<close> has returned for a handle, running it again on that
  handle fails with the \<open>KeyError\<close> of the handle's \<open>call_id\<close> (the lookup in the
  delivered-response map, which is how the unknown call id shows), whatever responses
  the dispatcher has handled in between, and changes nothing.
\<close>

theorem wait_for_response_twice:
  assumes "wait_for_response promise s = (Return r, s')"
  shows "wait_for_response promise (deliver rs s') =
           (Raise (KeyError (promise_call_id promise s)), deliver rs s')"
  using wait_for_response_consumed[OF assms] by (intro wait_consumed deliver_consumed)

theorem wait_for_response_twice_witness:
  "wait_for_response 0 answered_channel =
     (Return example_response, snd (wait_for_response 0 answered_channel)) \<and>
   fst (wait_for_response 0
          (deliver [example_response] (snd (wait_for_response 0 answered_channel)))) =
     Raise (KeyError ''id1'')"
proof -
  have h: "wait_for_response 0 answered_channel =
     (Return example_response, snd (wait_for_response 0 answered_channel))"
    by (simp add: answered_channel_eq wait_for_response_def event_is_set_def Let_def
        promise_call_id_def)
  have c: "promise_call_id 0 answered_channel = ''id1''"
    by (simp add: answered_channel_eq promise_call_id_def)
  show ?thesis
    using h c wait_for_response_twice[OF h, of "[example_response]"] by simp
qed

text \<open>
  C9 asks that only declared exposed methods can be reached by name, never another
  attribute or a private helper. The code does not filter:
  the name from the wire goes to \<open>getattr\<close> as it is. The example endpoint's
  private \<open>_helper\<close>, a name that the calling side's facade itself refuses to forward,
  is invoked by \<open>on_request\<close> and its result is sent to the remote side; a request
  for \<open>set_channel\<close>, the binding that the constructor uses, calls it with the
  remote side's argument.
\<close>

theorem on_request_invokes_private_helper:
  "startswith_underscore ''_helper'' \<and>
   RpcCaller_getattribute None ''_helper'' = Own ''_helper'' \<and>
   fst (on_request example_lib helper_request example_channel) = Return () \<and>
   invoked (snd (on_request example_lib helper_request example_channel)) =
     [(''_helper'', [])] \<and>
   sent (snd (on_request example_lib helper_request example_channel)) = [''response id9''] \<and>
   invoked (snd (on_request example_lib set_channel_request example_channel)) =
     [(''set_channel'', [(''channel'', PNone)])]"
  by (simp add: on_request_def logger_info_def send_def get_return_type_def
      RpcCaller_getattribute_def startswith_underscore_def example_channel_def
      RpcChannel_init_def example_lib_def example_json_def example_methods_def
      helper_request_def set_channel_request_def)

text \<open>
  C10, as stated, at an envelope whose request names a method the endpoint lacks and
  whose response answers the pending call \<open>id1\<close>: \<open>on_message\<close> leaves with the
  \<open>AttributeError\<close> of the request and the response is never handed to
  \<open>on_response\<close>, which would have stored it.
\<close>

theorem on_message_both_fields_counterexample:
  "parse_raw example_lib ''request multiply id7 response id1'' =
     Inr \<lparr>request = Some multiply_request, response = Some example_response\<rparr> \<and>
   fst (on_message example_lib ''request multiply id7 response id1'' pending_channel) =
     Raise (AttributeError ''multiply'') \<and>
   responses (snd (on_message example_lib ''request multiply id7 response id1''
                     pending_channel)) ''id1'' = None \<and>
   responses (snd (on_response example_response
                     (snd (on_request example_lib multiply_request pending_channel)))) ''id1'' =
     Some example_response"
  by (simp add: pending_channel_eq on_message_def on_request_def on_response_def
      promise_set_def logger_info_def example_lib_def example_parse_def nesting_def example_methods_def
      multiply_request_def example_response_def)

text \<open>
  C10, amended. For an envelope that carries both a request and a response,
  \<open>on_message\<close> dispatches the request first and, when \<open>on_request\<close> returns
  normally, then the response, on the channel as the request left it; neither field is
  rejected or skipped for the presence of the other.
\<close>

theorem on_message_both_fields:
  assumes "parse_raw L data = Inr m"
      and "request m = Some rq"
      and "response m = Some rs"
      and "on_request L rq s = (Return (), s1)"
  shows "on_message L data s = on_response rs s1"
  using assms by (simp add: on_message_def)

theorem on_message_both_fields_witness:
  "parse_raw example_lib ''request notify id5 response id1'' =
     Inr \<lparr>request = Some notify_request, response = Some example_response\<rparr> \<and>
   on_request example_lib notify_request pending_channel =
     (Return (), snd (on_request example_lib notify_request pending_channel)) \<and>
   on_message example_lib ''request notify id5 response id1'' pending_channel =
     on_response example_response (snd (on_request example_lib notify_request pending_channel)) \<and>
   invoked (snd (on_message example_lib ''request notify id5 response id1'' pending_channel)) =
     [(''notify'', [])] \<and>
   responses (snd (on_message example_lib ''request notify id5 response id1''
                     pending_channel)) ''id1'' = Some example_response"
proof -
  let ?m = "\<lparr>request = Some notify_request, response = Some example_response\<rparr>"
  have h1: "parse_raw example_lib ''request notify id5 response id1'' = Inr ?m"
    by (simp add: example_lib_def example_parse_def nesting_def)
  have h2: "request ?m = Some notify_request" by simp
  have h3: "response ?m = Some example_response" by simp
  have h4: "on_request example_lib notify_request pending_channel =
      (Return (), snd (on_request example_lib notify_request pending_channel))"
    by (simp add: pending_channel_eq on_request_def logger_info_def example_methods_def
        notify_request_def)
  have e: "on_response example_response
             (snd (on_request example_lib notify_request pending_channel)) =
           (Return (),
            pending_channel\<lparr>responses := [''id1'' \<mapsto> example_response],
              heap := [(heap pending_channel ! 0)\<lparr>p_event := True\<rparr>],
              logged := [(INFO, ''Calling RPC method''), (INFO, ''Handling RPC request''),
                         (INFO, ''Handling RPC response'')],
              invoked := [(''notify'', [])]\<rparr>)"
    by (simp add: pending_channel_eq on_request_def on_response_def promise_set_def
        logger_info_def example_methods_def notify_request_def example_response_def)
  show ?thesis
    using h1 h4 e on_message_both_fields[OF h1 h2 h3 h4] by simp
qed

end
